theory Spec2Isabelle
  imports Main
begin

section \<open>Python built-ins used by \<^verbatim>\<open>trains/utilities/check_updates.py\<close>\<close>

text \<open>
  The module is modelled under Python 3 semantics (the source imports \<^verbatim>\<open>math.inf\<close> when
  \<^verbatim>\<open>six.PY3\<close> holds). Strings are ASCII strings: every character is one \<^typ>\<open>char\<close>.
  Exceptions are values of the type \<open>error\<close>; a function that can raise returns
  \<open>error + 'a\<close>, with \<open>Inl\<close> for the exception.
\<close>

datatype error =
    InvalidVersion string
  | ValueError
  | IndexError
  | TypeError
  | AttributeError
  | RequestError

definition ebind :: "error + 'a \<Rightarrow> ('a \<Rightarrow> error + 'b) \<Rightarrow> error + 'b" where
  "ebind m f = (case m of Inl e \<Rightarrow> Inl e | Inr x \<Rightarrow> f x)"

text \<open>\<^verbatim>\<open>str.lower()\<close> on ASCII.\<close>

definition lower_char :: "char \<Rightarrow> char" where
  "lower_char c =
     (let n = (of_char c :: nat) in if 65 \<le> n \<and> n \<le> 90 then char_of (n + 32) else c)"

definition lower :: "string \<Rightarrow> string" where
  "lower s = map lower_char s"

text \<open>\<^verbatim>\<open>str.isdigit()\<close> on ASCII: non-empty and every character in \<^verbatim>\<open>0-9\<close>.\<close>

definition is_digit_char :: "char \<Rightarrow> bool" where
  "is_digit_char c = (48 \<le> (of_char c :: nat) \<and> (of_char c :: nat) \<le> 57)"

definition isdigit :: "string \<Rightarrow> bool" where
  "isdigit s = (s \<noteq> [] \<and> list_all is_digit_char s)"

definition digit_val :: "char \<Rightarrow> nat" where
  "digit_val c = of_char c - 48"

definition digits_val :: "string \<Rightarrow> nat" where
  "digits_val s = foldl (\<lambda>a c. 10 * a + digit_val c) 0 s"

text \<open>
  \<^verbatim>\<open>int(s)\<close> for the strings this module hands to it: a string of decimal digits, or
  the empty string, on which Python raises \<^verbatim>\<open>ValueError\<close>.
\<close>

definition py_int :: "string \<Rightarrow> error + int" where
  "py_int s = (if isdigit s then Inr (int (digits_val s)) else Inl ValueError)"

text \<open>\<^verbatim>\<open>str(n)\<close> for an integer.\<close>

fun str_nat :: "nat \<Rightarrow> string" where
  "str_nat n =
     (if n < 10 then [char_of (48 + n)] else str_nat (n div 10) @ [char_of (48 + n mod 10)])"

declare str_nat.simps [simp del]

definition str_int :: "int \<Rightarrow> string" where
  "str_int i = (if i < 0 then CHR ''-'' # str_nat (nat (- i)) else str_nat (nat i))"

text \<open>
  Splitting at every separator character, keeping empty fields: \<^verbatim>\<open>s.split(".")\<close> and
  \<^verbatim>\<open>re.compile(r"[\._-]").split(s)\<close>.
\<close>

fun split :: "char list \<Rightarrow> string \<Rightarrow> string list" where
  "split seps [] = [[]]"
| "split seps (c # cs) =
     (if c \<in> set seps then [] # split seps cs
      else (case split seps cs of [] \<Rightarrow> [[c]] | p # ps \<Rightarrow> (c # p) # ps))"

text \<open>\<^verbatim>\<open>sep.join(xs)\<close>.\<close>

fun join :: "string \<Rightarrow> string list \<Rightarrow> string" where
  "join sep [] = []"
| "join sep [x] = x"
| "join sep (x # y # ys) = x @ sep @ join sep (y # ys)"

text \<open>Truth value of an optional string: \<^verbatim>\<open>None\<close> and \<^verbatim>\<open>''\<close> are false.\<close>

definition truthy :: "string option \<Rightarrow> bool" where
  "truthy x = (x \<noteq> None \<and> x \<noteq> Some [])"

text \<open>\<^verbatim>\<open>a or b\<close>.\<close>

definition py_or :: "string option \<Rightarrow> string option \<Rightarrow> string option" where
  "py_or a b = (if truthy a then a else b)"

section \<open>Regular expressions of the \<^verbatim>\<open>re\<close> module\<close>

text \<open>
  The fragment of \<^verbatim>\<open>re\<close> that \<^verbatim>\<open>VERSION_PATTERN\<close> uses: character sets, sequence,
  ordered alternation, the greedy star, capturing groups and \<^verbatim>\<open>$\<close>. Matching is by
  backtracking in the order of \<^verbatim>\<open>re\<close>: the left alternative before the right one, one
  more repetition before none. The pattern is compiled with \<^verbatim>\<open>re.IGNORECASE\<close>, so a
  character matches a set when its lower-case form is the lower-case form of a member.
  The matcher takes the rest of the input, the groups captured so far (the most recent
  first) and the continuation that matches what follows.
\<close>

datatype regex =
    Chars "char list"
  | Eps
  | Eol
  | Seq regex regex
  | Alt regex regex
  | Star regex
  | Group string regex

type_synonym groups = "(string \<times> string) list"

function rmatch ::
  "regex \<Rightarrow> string \<Rightarrow> groups \<Rightarrow> (string \<Rightarrow> groups \<Rightarrow> 'a option) \<Rightarrow> 'a option" where
  "rmatch (Chars cs) s g k =
     (case s of [] \<Rightarrow> None
      | x # xs \<Rightarrow> if lower_char x \<in> set (map lower_char cs) then k xs g else None)"
| "rmatch Eps s g k = k s g"
| "rmatch Eol s g k = (if s = [] \<or> s = [CHR 0x0A] then k s g else None)"
| "rmatch (Seq a b) s g k = rmatch a s g (\<lambda>s' g'. rmatch b s' g' k)"
| "rmatch (Alt a b) s g k =
     (case rmatch a s g k of Some r \<Rightarrow> Some r | None \<Rightarrow> rmatch b s g k)"
| "rmatch (Star a) s g k =
     (case rmatch a s g
             (\<lambda>s' g'. if length s' < length s then rmatch (Star a) s' g' k else None) of
        Some r \<Rightarrow> Some r
      | None \<Rightarrow> k s g)"
| "rmatch (Group n a) s g k =
     rmatch a s g (\<lambda>s' g'. k s' ((n, take (length s - length s') s) # g'))"
  by pat_completeness auto
termination
  by (relation "measures [\<lambda>(r, s, g, k). size r, \<lambda>(r, s, g, k). length s]") auto

text \<open>\<^verbatim>\<open>r?\<close>, \<^verbatim>\<open>r+\<close>, a literal word, a sequence and an alternation of several parts.\<close>

definition Opt :: "regex \<Rightarrow> regex" where
  "Opt r = Alt r Eps"

definition Plus :: "regex \<Rightarrow> regex" where
  "Plus r = Seq r (Star r)"

primrec lit :: "string \<Rightarrow> regex" where
  "lit [] = Eps"
| "lit (c # cs) = Seq (Chars [c]) (lit cs)"

fun seqs :: "regex list \<Rightarrow> regex" where
  "seqs [] = Eps"
| "seqs [r] = r"
| "seqs (r # q # rs) = Seq r (seqs (q # rs))"

fun alts :: "regex list \<Rightarrow> regex" where
  "alts [] = Chars []"
| "alts [r] = r"
| "alts (r # q # rs) = Alt r (alts (q # rs))"

text \<open>\<^verbatim>\<open>[0-9]+\<close>, \<^verbatim>\<open>[-_\.]?\<close>, \<^verbatim>\<open>[a-z0-9]+\<close> and \<^verbatim>\<open>\s\<close> (the ASCII characters for which
  \<^verbatim>\<open>str.isspace()\<close> holds).\<close>

definition digits :: regex where
  "digits = Plus (Chars ''0123456789'')"

definition sep :: regex where
  "sep = Opt (Chars ''-_.'')"

definition alnum :: regex where
  "alnum = Plus (Chars ''abcdefghijklmnopqrstuvwxyz0123456789'')"

definition space :: regex where
  "space = Chars [CHR 0x09, CHR 0x0A, CHR 0x0B, CHR 0x0C, CHR 0x0D,
                  CHR 0x1C, CHR 0x1D, CHR 0x1E, CHR 0x1F, CHR 0x20]"

section \<open>The class \<^verbatim>\<open>Version\<close>\<close>

text \<open>
  \<^verbatim>\<open>VERSION_PATTERN\<close>, group by group. The unnamed group around the alternatives of
  \<^verbatim>\<open>pre_l\<close> is the fifth group of the pattern.
\<close>

definition VERSION_PATTERN :: regex where
  "VERSION_PATTERN = seqs [
     Opt (Chars ''v''),
     Opt (Seq (Group ''epoch'' digits) (Chars ''!'')),
     Group ''release'' (Seq digits (Star (Seq (Chars ''.'') digits))),
     Opt (Group ''pre'' (seqs [
       sep,
       Group ''pre_l'' (Group ''5'' (alts [lit ''a'', lit ''b'', lit ''c'', lit ''rc'',
         lit ''alpha'', lit ''beta'', lit ''pre'', lit ''preview''])),
       sep,
       Opt (Group ''pre_n'' digits)])),
     Opt (Group ''post'' (Alt
       (Seq (Chars ''-'') (Group ''post_n1'' digits))
       (seqs [
         sep,
         Group ''post_l'' (alts [lit ''post'', lit ''rev'', lit ''r'']),
         sep,
         Opt (Group ''post_n2'' digits)]))),
     Opt (Group ''dev'' (seqs [
       sep,
       Group ''dev_l'' (lit ''dev''),
       sep,
       Opt (Group ''dev_n'' digits)])),
     Opt (Seq (Chars ''+'')
       (Group ''local'' (Seq alnum (Star (Seq (Chars ''-_.'') alnum)))))]"

text \<open>
  \<^verbatim>\<open>_regex = re.compile(r"^\s*" + VERSION_PATTERN + r"\s*$", ...)\<close>. The pattern starts
  with \<^verbatim>\<open>^\<close>, so \<^verbatim>\<open>_regex.search\<close> can only match at offset 0: it is one match attempt
  at the start of the string. The result is the groups of the first successful match.
\<close>

definition regex :: regex where
  "regex = seqs [Star space, VERSION_PATTERN, Star space, Eol]"

definition search :: "regex \<Rightarrow> string \<Rightarrow> groups option" where
  "search r s = rmatch r s [] (\<lambda>s' g. Some g)"

text \<open>\<^verbatim>\<open>match.group(name)\<close>: the last capture of the group, \<^verbatim>\<open>None\<close> when it took no part.\<close>

definition group :: "groups \<Rightarrow> string \<Rightarrow> string option" where
  "group m n = map_of m n"

text \<open>
  The named tuple \<^verbatim>\<open>_Version\<close>. A pre, post or dev segment is \<^verbatim>\<open>None\<close> or a pair
  (letter, number); the local segment is \<^verbatim>\<open>None\<close> or a tuple of parts, each an integer
  or a string.
\<close>

datatype local_part = LInt int | LStr string

record version_tuple =
  nt_epoch :: int
  nt_release :: "int list"
  nt_dev :: "(string \<times> int) option"
  nt_pre :: "(string \<times> int) option"
  nt_post :: "(string \<times> int) option"
  nt_local :: "local_part list option"

text \<open>
  An entry of the sorting key in the pre, post, dev or local position: an integer, the
  float \<^verbatim>\<open>inf\<close>, the float \<^verbatim>\<open>-inf\<close>, or (in the local position) a string.
\<close>

datatype rank = Num int | PosInf | NegInf | Str string

record cmpkey =
  k_epoch :: int
  k_release :: "int list"
  k_pre :: rank
  k_post :: rank
  k_dev :: rank
  k_local :: rank

record Version =
  version :: version_tuple
  key :: cmpkey

text \<open>\<^verbatim>\<open>Version._parse_letter_version(letter, number)\<close>.\<close>

definition parse_letter_version ::
  "string option \<Rightarrow> string option \<Rightarrow> error + (string \<times> int) option" where
  "parse_letter_version letter number =
     (if \<not> truthy letter \<and> \<not> truthy number then Inr None
      else (case letter of
        Some l \<Rightarrow>
          (if l \<noteq> [] then
             (let l1 = lower l;
                  l2 = (if l1 = ''alpha'' then ''a''
                        else if l1 = ''beta'' then ''b''
                        else if l1 \<in> set [''c'', ''pre'', ''preview''] then ''rc''
                        else if l1 \<in> set [''rev'', ''r''] then ''post''
                        else l1)
              in ebind (case number of None \<Rightarrow> Inr 0 | Some n \<Rightarrow> py_int n)
                   (\<lambda>n. Inr (Some (l2, n))))
           else ebind (case number of None \<Rightarrow> Inl TypeError | Some n \<Rightarrow> py_int n)
                  (\<lambda>n. Inr (Some (''post'', n))))
      | None \<Rightarrow>
          ebind (case number of None \<Rightarrow> Inl TypeError | Some n \<Rightarrow> py_int n)
            (\<lambda>n. Inr (Some (''post'', n)))))"

text \<open>\<^verbatim>\<open>Version._parse_local_version(local)\<close>.\<close>

definition part_of :: "string \<Rightarrow> local_part" where
  "part_of p = (if \<not> isdigit p then LStr (lower p) else LInt (int (digits_val p)))"

definition part_truthy :: "local_part \<Rightarrow> bool" where
  "part_truthy p = (case p of LInt i \<Rightarrow> i \<noteq> 0 | LStr s \<Rightarrow> s \<noteq> [])"

definition parse_local_version :: "string option \<Rightarrow> local_part list option" where
  "parse_local_version local =
     (case local of
        None \<Rightarrow> None
      | Some l \<Rightarrow>
          (case map part_of (split ''._-'' l) of
             [] \<Rightarrow> None
           | p # ps \<Rightarrow> if \<not> part_truthy p then None else Some (p # ps)))"

text \<open>\<^verbatim>\<open>Version._cmpkey(epoch, release, pre, post, dev, local)\<close>. The subscript
  \<^verbatim>\<open>local[1]\<close> raises \<^verbatim>\<open>IndexError\<close> on a tuple of one part.\<close>

definition rank_of_part :: "local_part \<Rightarrow> rank" where
  "rank_of_part p = (case p of LInt i \<Rightarrow> Num i | LStr s \<Rightarrow> Str s)"

definition cmpkey ::
  "int \<Rightarrow> int list \<Rightarrow> (string \<times> int) option \<Rightarrow> (string \<times> int) option \<Rightarrow>
   (string \<times> int) option \<Rightarrow> local_part list option \<Rightarrow> error + cmpkey" where
  "cmpkey epoch release pre post dev local =
     (let pre' = (case pre of None \<Rightarrow> PosInf | Some (l, n) \<Rightarrow> Num n);
          post' = (case post of None \<Rightarrow> NegInf | Some (l, n) \<Rightarrow> Num n);
          dev' = (case dev of None \<Rightarrow> PosInf | Some (l, n) \<Rightarrow> Num n)
      in ebind
           (case local of
              None \<Rightarrow> Inr PosInf
            | Some [] \<Rightarrow> Inr PosInf
            | Some [p] \<Rightarrow> Inl IndexError
            | Some (p # q # ps) \<Rightarrow> Inr (rank_of_part q))
           (\<lambda>local'. Inr \<lparr>k_epoch = epoch, k_release = release, k_pre = pre',
                          k_post = post', k_dev = dev', k_local = local'\<rparr>))"

text \<open>\<^verbatim>\<open>Version.__init__(self, version)\<close>. The keyword arguments of \<^verbatim>\<open>_Version(...)\<close> are
  evaluated in the order written, and the first exception ends the construction.\<close>

fun ints_of :: "string list \<Rightarrow> error + int list" where
  "ints_of [] = Inr []"
| "ints_of (x # xs) = ebind (py_int x) (\<lambda>i. ebind (ints_of xs) (\<lambda>is. Inr (i # is)))"

definition Version_init :: "string \<Rightarrow> error + Version" where
  "Version_init v =
     (case search regex v of
        None \<Rightarrow> Inl (InvalidVersion (''Invalid version: '' @ [CHR 0x27] @ v @ [CHR 0x27]))
      | Some m \<Rightarrow>
          ebind (case group m ''epoch'' of
                   None \<Rightarrow> Inr 0
                 | Some e \<Rightarrow> if e \<noteq> [] then py_int e else Inr 0) (\<lambda>epoch.
          ebind (case group m ''release'' of
                   None \<Rightarrow> Inl AttributeError
                 | Some r \<Rightarrow> ints_of (split ''.'' r)) (\<lambda>release.
          ebind (parse_letter_version (group m ''pre_l'') (group m ''pre_n'')) (\<lambda>pre.
          ebind (parse_letter_version
                   (py_or (group m ''post_l'') (Some []))
                   (py_or (group m ''post_n1'') (py_or (group m ''post_n2'') (Some []))))
                (\<lambda>post.
          ebind (parse_letter_version
                   (py_or (group m ''dev_l'') (Some []))
                   (py_or (group m ''dev_n'') (Some []))) (\<lambda>dev.
          (let local = parse_local_version (py_or (group m ''local'') (Some []))
           in ebind (cmpkey epoch release pre post dev local) (\<lambda>k.
                Inr \<lparr>version = \<lparr>nt_epoch = epoch, nt_release = release, nt_dev = dev,
                                 nt_pre = pre, nt_post = post, nt_local = local\<rparr>,
                     key = k\<rparr>))))))))"

text \<open>The properties of a \<^verbatim>\<open>Version\<close> and \<^verbatim>\<open>Version.__str__\<close>.\<close>

definition Version_epoch :: "Version \<Rightarrow> int" where
  "Version_epoch v = nt_epoch (version v)"

definition Version_release :: "Version \<Rightarrow> int list" where
  "Version_release v = nt_release (version v)"

definition Version_pre :: "Version \<Rightarrow> (string \<times> int) option" where
  "Version_pre v = nt_pre (version v)"

definition Version_post :: "Version \<Rightarrow> int option" where
  "Version_post v = (case nt_post (version v) of None \<Rightarrow> None | Some (l, n) \<Rightarrow> Some n)"

definition Version_dev :: "Version \<Rightarrow> int option" where
  "Version_dev v = (case nt_dev (version v) of None \<Rightarrow> None | Some (l, n) \<Rightarrow> Some n)"

definition str_part :: "local_part \<Rightarrow> string" where
  "str_part p = (case p of LInt i \<Rightarrow> str_int i | LStr s \<Rightarrow> s)"

definition Version_local :: "Version \<Rightarrow> string option" where
  "Version_local v =
     (case nt_local (version v) of
        None \<Rightarrow> None
      | Some [] \<Rightarrow> None
      | Some (p # ps) \<Rightarrow> Some (join ''.'' (map str_part (p # ps))))"

definition Version_str :: "Version \<Rightarrow> string" where
  "Version_str v =
     (if Version_epoch v \<noteq> 0 then str_int (Version_epoch v) @ ''!'' else [])
     @ join ''.'' (map str_int (Version_release v))
     @ (case Version_pre v of None \<Rightarrow> [] | Some (l, n) \<Rightarrow> l @ str_int n)
     @ (case Version_post v of None \<Rightarrow> [] | Some n \<Rightarrow> ''.post'' @ str_int n)
     @ (case Version_dev v of None \<Rightarrow> [] | Some n \<Rightarrow> ''.dev'' @ str_int n)
     @ (case Version_local v of None \<Rightarrow> [] | Some l \<Rightarrow> ''+'' @ l)"

definition is_prerelease :: "Version \<Rightarrow> bool" where
  "is_prerelease v = (Version_dev v \<noteq> None \<or> Version_pre v \<noteq> None)"

definition is_postrelease :: "Version \<Rightarrow> bool" where
  "is_postrelease v = (Version_post v \<noteq> None)"

definition is_devrelease :: "Version \<Rightarrow> bool" where
  "is_devrelease v = (Version_dev v \<noteq> None)"

section \<open>The comparisons of \<^verbatim>\<open>_BaseVersion\<close>\<close>

text \<open>
  The six operators hand one of \<^verbatim>\<open><\<close>, \<^verbatim>\<open><=\<close>, \<^verbatim>\<open>==\<close>, \<^verbatim>\<open>>=\<close>, \<^verbatim>\<open>>\<close>, \<^verbatim>\<open>!=\<close> to
  \<^verbatim>\<open>_compare\<close>, which applies it to the two keys. The keys are tuples, and Python compares
  tuples by finding the first position where the items are not equal; the operator is
  then applied to these two items, and to the lengths when there is no such position.
  An order comparison of a string with a number raises \<^verbatim>\<open>TypeError\<close>; \<^verbatim>\<open>==\<close> and
  \<^verbatim>\<open>!=\<close> never raise.
\<close>

datatype cmp_op = OpLt | OpLe | OpEq | OpGe | OpGt | OpNe

fun int_cmp :: "cmp_op \<Rightarrow> int \<Rightarrow> int \<Rightarrow> bool" where
  "int_cmp OpLt a b = (a < b)"
| "int_cmp OpLe a b = (a \<le> b)"
| "int_cmp OpEq a b = (a = b)"
| "int_cmp OpGe a b = (a \<ge> b)"
| "int_cmp OpGt a b = (a > b)"
| "int_cmp OpNe a b = (a \<noteq> b)"

text \<open>A tuple of integers (the release).\<close>

fun ints_cmp :: "cmp_op \<Rightarrow> int list \<Rightarrow> int list \<Rightarrow> bool" where
  "ints_cmp p (x # xs) (y # ys) = (if x = y then ints_cmp p xs ys else int_cmp p x y)"
| "ints_cmp p xs ys = int_cmp p (int (length xs)) (int (length ys))"

text \<open>Strings compare by code point, a proper prefix first.\<close>

fun str_lt :: "string \<Rightarrow> string \<Rightarrow> bool" where
  "str_lt (x # xs) (y # ys) =
     (if x = y then str_lt xs ys else (of_char x :: nat) < of_char y)"
| "str_lt xs ys = (length xs < length ys)"

fun rank_lt :: "rank \<Rightarrow> rank \<Rightarrow> error + bool" where
  "rank_lt (Str a) (Str b) = Inr (str_lt a b)"
| "rank_lt (Str a) (Num j) = Inl TypeError"
| "rank_lt (Str a) PosInf = Inl TypeError"
| "rank_lt (Str a) NegInf = Inl TypeError"
| "rank_lt (Num i) (Str b) = Inl TypeError"
| "rank_lt PosInf (Str b) = Inl TypeError"
| "rank_lt NegInf (Str b) = Inl TypeError"
| "rank_lt (Num i) (Num j) = Inr (i < j)"
| "rank_lt (Num i) PosInf = Inr True"
| "rank_lt (Num i) NegInf = Inr False"
| "rank_lt PosInf (Num j) = Inr False"
| "rank_lt PosInf PosInf = Inr False"
| "rank_lt PosInf NegInf = Inr False"
| "rank_lt NegInf (Num j) = Inr True"
| "rank_lt NegInf PosInf = Inr True"
| "rank_lt NegInf NegInf = Inr False"

fun rank_cmp :: "cmp_op \<Rightarrow> rank \<Rightarrow> rank \<Rightarrow> error + bool" where
  "rank_cmp OpLt a b = rank_lt a b"
| "rank_cmp OpLe a b = ebind (rank_lt a b) (\<lambda>r. Inr (r \<or> a = b))"
| "rank_cmp OpEq a b = Inr (a = b)"
| "rank_cmp OpGe a b = ebind (rank_lt b a) (\<lambda>r. Inr (r \<or> a = b))"
| "rank_cmp OpGt a b = rank_lt b a"
| "rank_cmp OpNe a b = Inr (a \<noteq> b)"

text \<open>The key: a tuple of six items.\<close>

definition key_cmp :: "cmp_op \<Rightarrow> cmpkey \<Rightarrow> cmpkey \<Rightarrow> error + bool" where
  "key_cmp p a b =
     (if k_epoch a \<noteq> k_epoch b then Inr (int_cmp p (k_epoch a) (k_epoch b))
      else if k_release a \<noteq> k_release b then Inr (ints_cmp p (k_release a) (k_release b))
      else if k_pre a \<noteq> k_pre b then rank_cmp p (k_pre a) (k_pre b)
      else if k_post a \<noteq> k_post b then rank_cmp p (k_post a) (k_post b)
      else if k_dev a \<noteq> k_dev b then rank_cmp p (k_dev a) (k_dev b)
      else if k_local a \<noteq> k_local b then rank_cmp p (k_local a) (k_local b)
      else Inr (int_cmp p 6 6))"

text \<open>
  \<^verbatim>\<open>_BaseVersion._compare(self, other, method)\<close>; the other operand is a \<^verbatim>\<open>Version\<close>, so
  the \<^verbatim>\<open>NotImplemented\<close> branch is not taken.
\<close>

definition compare :: "Version \<Rightarrow> Version \<Rightarrow> (cmpkey \<Rightarrow> cmpkey \<Rightarrow> error + bool) \<Rightarrow> error + bool" where
  "compare self other method = method (key self) (key other)"

definition Version_lt :: "Version \<Rightarrow> Version \<Rightarrow> error + bool" where
  "Version_lt self other = compare self other (key_cmp OpLt)"

definition Version_le :: "Version \<Rightarrow> Version \<Rightarrow> error + bool" where
  "Version_le self other = compare self other (key_cmp OpLe)"

definition Version_eq :: "Version \<Rightarrow> Version \<Rightarrow> error + bool" where
  "Version_eq self other = compare self other (key_cmp OpEq)"

definition Version_ge :: "Version \<Rightarrow> Version \<Rightarrow> error + bool" where
  "Version_ge self other = compare self other (key_cmp OpGe)"

definition Version_gt :: "Version \<Rightarrow> Version \<Rightarrow> error + bool" where
  "Version_gt self other = compare self other (key_cmp OpGt)"

definition Version_ne :: "Version \<Rightarrow> Version \<Rightarrow> error + bool" where
  "Version_ne self other = compare self other (key_cmp OpNe)"

text \<open>\<^verbatim>\<open>_BaseVersion.__hash__\<close>: the built-in \<^verbatim>\<open>hash\<close>, a parameter, applied to the key.\<close>

definition Version_hash :: "(cmpkey \<Rightarrow> int) \<Rightarrow> Version \<Rightarrow> int" where
  "Version_hash hash self = hash (key self)"

text \<open>
  The value of a Python expression \<^verbatim>\<open>Version(s) op Version(t)\<close>: the left operand is
  constructed first, and an exception of a constructor or of the comparison ends the
  evaluation.
\<close>

definition cmp_versions :: "cmp_op \<Rightarrow> string \<Rightarrow> string \<Rightarrow> error + bool" where
  "cmp_versions p s t =
     ebind (Version_init s) (\<lambda>a. ebind (Version_init t) (\<lambda>b. compare a b (key_cmp p)))"

section \<open>\<^verbatim>\<open>CheckPackageUpdates.check_new_package_available\<close>\<close>

text \<open>
  \<^verbatim>\<open>[Version(r) for r in releases]\<close>: the candidates are constructed from left to right
  and the first exception leaves the comprehension.
\<close>

fun versions_of :: "string list \<Rightarrow> error + Version list" where
  "versions_of [] = Inr []"
| "versions_of (r # rs) =
     ebind (Version_init r) (\<lambda>v. ebind (versions_of rs) (\<lambda>vs. Inr (v # vs)))"

text \<open>
  \<^verbatim>\<open>sorted(releases)\<close>: a stable sort that only uses \<^verbatim>\<open><\<close>, here by insertion. An
  exception of a comparison leaves the sort.
\<close>

fun insert_sorted :: "Version \<Rightarrow> Version list \<Rightarrow> error + Version list" where
  "insert_sorted x [] = Inr [x]"
| "insert_sorted x (y # ys) =
     ebind (Version_lt y x) (\<lambda>lt.
       if lt then ebind (insert_sorted x ys) (\<lambda>zs. Inr (y # zs)) else Inr (x # y # ys))"

fun sorted_py :: "Version list \<Rightarrow> error + Version list" where
  "sorted_py [] = Inr []"
| "sorted_py (x # xs) = ebind (sorted_py xs) (\<lambda>ys. insert_sorted x ys)"

text \<open>\<^verbatim>\<open>xs[-1]\<close>.\<close>

definition last_item :: "'a list \<Rightarrow> error + 'a" where
  "last_item xs = (if xs = [] then Inl IndexError else Inr (last xs))"

text \<open>
  The check takes the argument \<^verbatim>\<open>only_once\<close>, the class attribute
  \<^verbatim>\<open>_package_version_checked\<close>, the outcome of the request to the package index (the keys
  of \<^verbatim>\<open>releases\<close> in their order, or the exception of the request or of the JSON
  decoding) and \<^verbatim>\<open>__version__\<close>. It returns the result and the new value of the class
  attribute. The statistics thread has no part in the result and is left out. The body
  of the \<^verbatim>\<open>try\<close> is \<open>check_body\<close>; \<^verbatim>\<open>except Exception\<close> turns every exception into
  \<^verbatim>\<open>None\<close>.
\<close>

definition check_body :: "error + string list \<Rightarrow> string \<Rightarrow> error + (string \<times> bool) option" where
  "check_body response current =
     ebind response (\<lambda>releases.
     ebind (versions_of releases) (\<lambda>releases.
     ebind (sorted_py releases) (\<lambda>latest_version.
     ebind (Version_init current) (\<lambda>cur_version.
       (let latest_version =
              (if \<not> is_devrelease cur_version \<and> \<not> is_prerelease cur_version
               then filter (\<lambda>r. \<not> is_devrelease r \<and> \<not> is_prerelease r) latest_version
               else latest_version)
        in ebind (last_item latest_version) (\<lambda>latest.
           ebind (Version_ge cur_version latest) (\<lambda>ge.
             if ge then Inr None
             else Inr (Some (Version_str latest,
                    take 2 (Version_release latest) \<noteq> take 2 (Version_release cur_version))))))))))"

definition check_new_package_available ::
  "bool \<Rightarrow> bool \<Rightarrow> error + string list \<Rightarrow> string \<Rightarrow> (string \<times> bool) option \<times> bool" where
  "check_new_package_available only_once package_version_checked response current =
     (if only_once \<and> package_version_checked then (None, package_version_checked)
      else (case check_body response current of
              Inl e \<Rightarrow> (None, True)
            | Inr r \<Rightarrow> (r, True)))"

text \<open>A key without a string in its last four positions.\<close>

definition is_str :: "rank \<Rightarrow> bool" where
  "is_str r = (case r of Str s \<Rightarrow> True | _ \<Rightarrow> False)"

definition numeric_key :: "cmpkey \<Rightarrow> bool" where
  "numeric_key k =
     (\<not> is_str (k_pre k) \<and> \<not> is_str (k_post k) \<and> \<not> is_str (k_dev k) \<and> \<not> is_str (k_local k))"

section \<open>Evaluation\<close>

text \<open>
  A match is evaluated from the outside: the continuation of \<open>rmatch\<close> is only looked
  at when it is applied.
\<close>

lemma rmatch_weak_cong:
  "r = r' \<Longrightarrow> s = s' \<Longrightarrow> g = g' \<Longrightarrow> rmatch r s g k = rmatch r' s' g' k"
  by simp

lemma ebind_Inl [simp]: "ebind (Inl e) f = Inl e"
  by (simp add: ebind_def)

lemma ebind_Inr [simp]: "ebind (Inr x) f = f x"
  by (simp add: ebind_def)

lemma ebind_eq_Inr: "(ebind m f = Inr y) = (\<exists>x. m = Inr x \<and> f x = Inr y)"
  by (cases m) simp_all

lemma ebind_eq_Inl: "(ebind m f = Inl e) = (m = Inl e \<or> (\<exists>x. m = Inr x \<and> f x = Inl e))"
  by (cases m) simp_all

lemmas regex_defs = regex_def VERSION_PATTERN_def Opt_def Plus_def digits_def sep_def
  alnum_def space_def

lemmas eval_defs = Version_init_def search_def regex_defs lower_char_def group_def
  parse_letter_version_def parse_local_version_def cmpkey_def truthy_def py_or_def py_int_def
  isdigit_def is_digit_char_def digits_val_def digit_val_def lower_def part_of_def
  part_truthy_def rank_of_part_def char_of_eq_iff

lemmas cmp_defs = cmp_versions_def compare_def key_cmp_def

lemmas str_defs = Version_str_def Version_epoch_def Version_release_def Version_pre_def
  Version_post_def Version_dev_def Version_local_def str_int_def str_nat.simps char_of_eq_iff

subsection \<open>The constructor on the version strings of the properties\<close>

lemma init_1_0_dev0:
  "Version_init ''1.0.dev0'' =
     Inr \<lparr>version = \<lparr>nt_epoch = 0, nt_release = [1, 0], nt_dev = Some (''dev'', 0), nt_pre = None,
         nt_post = None, nt_local = None\<rparr>,
       key = \<lparr>k_epoch = 0, k_release = [1, 0], k_pre = PosInf, k_post = NegInf,
         k_dev = Num 0, k_local = PosInf\<rparr>\<rparr>"
  by (simp add: eval_defs cong: rmatch_weak_cong)

lemma init_1_0a1:
  "Version_init ''1.0a1'' =
     Inr \<lparr>version = \<lparr>nt_epoch = 0, nt_release = [1, 0], nt_dev = None, nt_pre = Some (''a'', 1),
         nt_post = None, nt_local = None\<rparr>,
       key = \<lparr>k_epoch = 0, k_release = [1, 0], k_pre = Num 1, k_post = NegInf,
         k_dev = PosInf, k_local = PosInf\<rparr>\<rparr>"
  by (simp add: eval_defs cong: rmatch_weak_cong)

lemma init_1_0a1_post1:
  "Version_init ''1.0a1.post1'' =
     Inr \<lparr>version = \<lparr>nt_epoch = 0, nt_release = [1, 0], nt_dev = None, nt_pre = Some (''a'', 1),
         nt_post = Some (''post'', 1), nt_local = None\<rparr>,
       key = \<lparr>k_epoch = 0, k_release = [1, 0], k_pre = Num 1, k_post = Num 1,
         k_dev = PosInf, k_local = PosInf\<rparr>\<rparr>"
  by (simp add: eval_defs cong: rmatch_weak_cong)

lemma init_1_0:
  "Version_init ''1.0'' =
     Inr \<lparr>version = \<lparr>nt_epoch = 0, nt_release = [1, 0], nt_dev = None, nt_pre = None,
         nt_post = None, nt_local = None\<rparr>,
       key = \<lparr>k_epoch = 0, k_release = [1, 0], k_pre = PosInf, k_post = NegInf,
         k_dev = PosInf, k_local = PosInf\<rparr>\<rparr>"
  by (simp add: eval_defs cong: rmatch_weak_cong)

lemma init_1_0_post1:
  "Version_init ''1.0.post1'' =
     Inr \<lparr>version = \<lparr>nt_epoch = 0, nt_release = [1, 0], nt_dev = None, nt_pre = None,
         nt_post = Some (''post'', 1), nt_local = None\<rparr>,
       key = \<lparr>k_epoch = 0, k_release = [1, 0], k_pre = PosInf, k_post = Num 1,
         k_dev = PosInf, k_local = PosInf\<rparr>\<rparr>"
  by (simp add: eval_defs cong: rmatch_weak_cong)

lemma init_1_0_0:
  "Version_init ''1.0.0'' =
     Inr \<lparr>version = \<lparr>nt_epoch = 0, nt_release = [1, 0, 0], nt_dev = None, nt_pre = None,
         nt_post = None, nt_local = None\<rparr>,
       key = \<lparr>k_epoch = 0, k_release = [1, 0, 0], k_pre = PosInf, k_post = NegInf,
         k_dev = PosInf, k_local = PosInf\<rparr>\<rparr>"
  by (simp add: eval_defs cong: rmatch_weak_cong)

lemma init_2_0_0:
  "Version_init ''2.0.0'' =
     Inr \<lparr>version = \<lparr>nt_epoch = 0, nt_release = [2, 0, 0], nt_dev = None, nt_pre = None,
         nt_post = None, nt_local = None\<rparr>,
       key = \<lparr>k_epoch = 0, k_release = [2, 0, 0], k_pre = PosInf, k_post = NegInf,
         k_dev = PosInf, k_local = PosInf\<rparr>\<rparr>"
  by (simp add: eval_defs cong: rmatch_weak_cong)

lemma init_1_0_post:
  "Version_init ''1.0.post'' =
     Inl ValueError"
  by (simp add: eval_defs cong: rmatch_weak_cong)

lemma init_1_0_dev:
  "Version_init ''1.0.dev'' =
     Inl ValueError"
  by (simp add: eval_defs cong: rmatch_weak_cong)

lemma init_1_0a:
  "Version_init ''1.0a'' =
     Inr \<lparr>version = \<lparr>nt_epoch = 0, nt_release = [1, 0], nt_dev = None, nt_pre = Some (''a'', 0),
         nt_post = None, nt_local = None\<rparr>,
       key = \<lparr>k_epoch = 0, k_release = [1, 0], k_pre = Num 0, k_post = NegInf,
         k_dev = PosInf, k_local = PosInf\<rparr>\<rparr>"
  by (simp add: eval_defs cong: rmatch_weak_cong)

lemma init_1_0_abc:
  "Version_init ''1.0+abc'' =
     Inl IndexError"
  by (simp add: eval_defs cong: rmatch_weak_cong)

lemma init_1_0_abc_1:
  "Version_init ''1.0+abc.1'' =
     Inr \<lparr>version = \<lparr>nt_epoch = 0, nt_release = [1, 0], nt_dev = None, nt_pre = None,
         nt_post = None, nt_local = Some [LStr ''abc'', LInt 1]\<rparr>,
       key = \<lparr>k_epoch = 0, k_release = [1, 0], k_pre = PosInf, k_post = NegInf,
         k_dev = PosInf, k_local = Num 1\<rparr>\<rparr>"
  by (simp add: eval_defs cong: rmatch_weak_cong)

lemma init_1_0_a_b:
  "Version_init ''1.0+a.b'' =
     Inr \<lparr>version = \<lparr>nt_epoch = 0, nt_release = [1, 0], nt_dev = None, nt_pre = None,
         nt_post = None, nt_local = Some [LStr ''a'', LStr ''b'']\<rparr>,
       key = \<lparr>k_epoch = 0, k_release = [1, 0], k_pre = PosInf, k_post = NegInf,
         k_dev = PosInf, k_local = Str ''b''\<rparr>\<rparr>"
  by (simp add: eval_defs cong: rmatch_weak_cong)

lemma init_bogus:
  "Version_init ''bogus'' =
     Inl (InvalidVersion (''Invalid version: '' @ [CHR 0x27] @ ''bogus'' @ [CHR 0x27]))"
  by (simp add: eval_defs cong: rmatch_weak_cong)

lemma init_1_0alpha1:
  "Version_init ''1.0alpha1'' =
     Inr \<lparr>version = \<lparr>nt_epoch = 0, nt_release = [1, 0], nt_dev = None, nt_pre = Some (''a'', 1),
         nt_post = None, nt_local = None\<rparr>,
       key = \<lparr>k_epoch = 0, k_release = [1, 0], k_pre = Num 1, k_post = NegInf,
         k_dev = PosInf, k_local = PosInf\<rparr>\<rparr>"
  by (simp add: eval_defs cong: rmatch_weak_cong)

lemma init_1_0c1:
  "Version_init ''1.0c1'' =
     Inr \<lparr>version = \<lparr>nt_epoch = 0, nt_release = [1, 0], nt_dev = None, nt_pre = Some (''rc'', 1),
         nt_post = None, nt_local = None\<rparr>,
       key = \<lparr>k_epoch = 0, k_release = [1, 0], k_pre = Num 1, k_post = NegInf,
         k_dev = PosInf, k_local = PosInf\<rparr>\<rparr>"
  by (simp add: eval_defs cong: rmatch_weak_cong)

lemma init_1_0rc1:
  "Version_init ''1.0rc1'' =
     Inr \<lparr>version = \<lparr>nt_epoch = 0, nt_release = [1, 0], nt_dev = None, nt_pre = Some (''rc'', 1),
         nt_post = None, nt_local = None\<rparr>,
       key = \<lparr>k_epoch = 0, k_release = [1, 0], k_pre = Num 1, k_post = NegInf,
         k_dev = PosInf, k_local = PosInf\<rparr>\<rparr>"
  by (simp add: eval_defs cong: rmatch_weak_cong)

lemma init_1_0b1:
  "Version_init ''1.0b1'' =
     Inr \<lparr>version = \<lparr>nt_epoch = 0, nt_release = [1, 0], nt_dev = None, nt_pre = Some (''b'', 1),
         nt_post = None, nt_local = None\<rparr>,
       key = \<lparr>k_epoch = 0, k_release = [1, 0], k_pre = Num 1, k_post = NegInf,
         k_dev = PosInf, k_local = PosInf\<rparr>\<rparr>"
  by (simp add: eval_defs cong: rmatch_weak_cong)

lemma init_1_0rev1:
  "Version_init ''1.0rev1'' =
     Inr \<lparr>version = \<lparr>nt_epoch = 0, nt_release = [1, 0], nt_dev = None, nt_pre = None,
         nt_post = Some (''post'', 1), nt_local = None\<rparr>,
       key = \<lparr>k_epoch = 0, k_release = [1, 0], k_pre = PosInf, k_post = Num 1,
         k_dev = PosInf, k_local = PosInf\<rparr>\<rparr>"
  by (simp add: eval_defs cong: rmatch_weak_cong)

lemma init_1_0post1:
  "Version_init ''1.0post1'' =
     Inr \<lparr>version = \<lparr>nt_epoch = 0, nt_release = [1, 0], nt_dev = None, nt_pre = None,
         nt_post = Some (''post'', 1), nt_local = None\<rparr>,
       key = \<lparr>k_epoch = 0, k_release = [1, 0], k_pre = PosInf, k_post = Num 1,
         k_dev = PosInf, k_local = PosInf\<rparr>\<rparr>"
  by (simp add: eval_defs cong: rmatch_weak_cong)

lemma init_1_0_minus_1:
  "Version_init ''1.0-1'' =
     Inr \<lparr>version = \<lparr>nt_epoch = 0, nt_release = [1, 0], nt_dev = None, nt_pre = None,
         nt_post = Some (''post'', 1), nt_local = None\<rparr>,
       key = \<lparr>k_epoch = 0, k_release = [1, 0], k_pre = PosInf, k_post = Num 1,
         k_dev = PosInf, k_local = PosInf\<rparr>\<rparr>"
  by (simp add: eval_defs cong: rmatch_weak_cong)

lemma search_1_0_post: "search regex ''1.0.post'' \<noteq> None"
  by (simp add: search_def regex_defs lower_char_def char_of_eq_iff cong: rmatch_weak_cong)

lemma search_1_0_abc: "search regex ''1.0+abc'' \<noteq> None"
  by (simp add: search_def regex_defs lower_char_def char_of_eq_iff cong: rmatch_weak_cong)

lemma init_1_0beta1: "Version_init ''1.0beta1'' = Version_init ''1.0b1''"
  unfolding init_1_0b1 by (simp add: eval_defs cong: rmatch_weak_cong)

lemma init_1_0pre1: "Version_init ''1.0pre1'' = Version_init ''1.0rc1''"
  unfolding init_1_0rc1 by (simp add: eval_defs cong: rmatch_weak_cong)

lemma init_1_0preview1: "Version_init ''1.0preview1'' = Version_init ''1.0rc1''"
  unfolding init_1_0rc1 by (simp add: eval_defs cong: rmatch_weak_cong)

lemma init_1_0r1: "Version_init ''1.0r1'' = Version_init ''1.0post1''"
  unfolding init_1_0post1 by (simp add: eval_defs cong: rmatch_weak_cong)

lemma init_1_0ALPHA1: "Version_init ''1.0ALPHA1'' = Version_init ''1.0a1''"
  unfolding init_1_0a1 by (simp add: eval_defs cong: rmatch_weak_cong)

section \<open>Facts about the key and the constructor\<close>

lemma init_key:
  assumes "Version_init s = Inr v"
  shows "cmpkey (nt_epoch (version v)) (nt_release (version v)) (nt_pre (version v))
           (nt_post (version v)) (nt_dev (version v)) (nt_local (version v)) = Inr (key v)"
proof (cases "search regex s")
  case None
  with assms show ?thesis by (simp add: Version_init_def)
next
  case (Some m)
  with assms show ?thesis
    by (auto simp add: Version_init_def ebind_eq_Inr Let_def)
qed

lemma init_key_eq:
  assumes "Version_init s = Inr v"
  shows "Inr (key v) =
           cmpkey (nt_epoch (version v)) (nt_release (version v)) (nt_pre (version v))
             (nt_post (version v)) (nt_dev (version v)) (nt_local (version v))"
  using init_key [OF assms] by simp

lemma cmpkey_fields:
  assumes "cmpkey e r pre post dev loc = Inr k"
  shows "k_epoch k = e" and "k_release k = r"
    and "k_pre k = (case pre of None \<Rightarrow> PosInf | Some (l, n) \<Rightarrow> Num n)"
    and "k_post k = (case post of None \<Rightarrow> NegInf | Some (l, n) \<Rightarrow> Num n)"
    and "k_dev k = (case dev of None \<Rightarrow> PosInf | Some (l, n) \<Rightarrow> Num n)"
  using assms by (auto simp add: cmpkey_def ebind_eq_Inr Let_def)

lemma cmpkey_pre_tag: "cmpkey e r (Some (la, n)) po d lo = cmpkey e r (Some (lb, n)) po d lo"
  by (simp add: cmpkey_def)

lemma key_cmp_eq_refl: "key_cmp OpEq k k = Inr True"
  by (simp add: key_cmp_def)

lemma ints_cmp_lt_lexord: "ints_cmp OpLt xs ys = ((xs, ys) \<in> lexord {(a, b). a < b})"
  by (induction OpLt xs ys rule: ints_cmp.induct) (auto simp add: neq_Nil_conv)

lemma ints_cmp_eq: "ints_cmp OpEq xs ys = (xs = ys)"
  by (induction OpEq xs ys rule: ints_cmp.induct) auto

lemma versions_of_fails:
  "r \<in> set rs \<Longrightarrow> Version_init r = Inl e \<Longrightarrow> \<exists>e'. versions_of rs = Inl e'"
proof (induction rs)
  case Nil
  then show ?case by simp
next
  case (Cons x xs)
  show ?case
  proof (cases "Version_init x")
    case (Inl e1)
    then show ?thesis by simp
  next
    case (Inr v)
    with Cons obtain e' where "versions_of xs = Inl e'" by auto
    with Inr show ?thesis by simp
  qed
qed

lemma py_int_not_invalid: "py_int s \<noteq> Inl (InvalidVersion m)"
  by (simp add: py_int_def)

lemma ints_of_not_invalid: "ints_of xs \<noteq> Inl (InvalidVersion m)"
  by (induction xs) (auto simp add: ebind_eq_Inl py_int_not_invalid)

lemma parse_letter_version_not_invalid: "parse_letter_version l n \<noteq> Inl (InvalidVersion m)"
  by (auto simp add: parse_letter_version_def ebind_eq_Inl py_int_not_invalid Let_def
      split: option.splits)

lemma cmpkey_not_invalid: "cmpkey e r pre post dev loc \<noteq> Inl (InvalidVersion m)"
  by (auto simp add: cmpkey_def ebind_eq_Inl Let_def split: option.splits list.splits)

lemma not_prerelease_record:
  "\<not> is_devrelease \<lparr>version = \<lparr>nt_epoch = e, nt_release = r, nt_dev = None, nt_pre = None,
         nt_post = po, nt_local = lo\<rparr>, key = k\<rparr>"
  "\<not> is_prerelease \<lparr>version = \<lparr>nt_epoch = e, nt_release = r, nt_dev = None, nt_pre = None,
         nt_post = po, nt_local = lo\<rparr>, key = k\<rparr>"
  by (simp_all add: is_devrelease_def is_prerelease_def Version_dev_def Version_pre_def)

text \<open>
  On keys without a string, as the constructor builds them for every version whose local
  segment is absent or has a number as its second part, \<^verbatim>\<open><\<close> always has a value.
\<close>

lemma rank_lt_total:
  "\<not> is_str a \<Longrightarrow> \<not> is_str b \<Longrightarrow> a \<noteq> b \<Longrightarrow>
   (rank_lt a b = Inr True \<and> rank_lt b a = Inr False) \<or>
   (rank_lt a b = Inr False \<and> rank_lt b a = Inr True)"
  by (cases a; cases b) (auto simp add: is_str_def)

lemma rank_lt_trans:
  "\<not> is_str a \<Longrightarrow> \<not> is_str b \<Longrightarrow> \<not> is_str c \<Longrightarrow>
   rank_lt a b = Inr True \<Longrightarrow> rank_lt b c = Inr True \<Longrightarrow> rank_lt a c = Inr True"
  by (cases a; cases b; cases c) (auto simp add: is_str_def)

lemma key_lt_defined:
  assumes "numeric_key a" and "numeric_key b"
  shows "\<exists>r. key_cmp OpLt a b = Inr r"
  using assms rank_lt_total [of "k_pre a" "k_pre b"] rank_lt_total [of "k_post a" "k_post b"]
    rank_lt_total [of "k_dev a" "k_dev b"] rank_lt_total [of "k_local a" "k_local b"]
  by (auto simp add: key_cmp_def numeric_key_def)

text \<open>\<^verbatim>\<open>_parse_letter_version\<close> on each spelling of a tag, for every number argument.\<close>

lemma lower_char_idem: "lower_char (lower_char c) = lower_char c"
  by (simp add: lower_char_def Let_def)

lemma lower_idem: "lower (lower l) = lower l"
  by (simp add: lower_def lower_char_idem)

lemma plv_table:
  "parse_letter_version (Some ''alpha'') n =
     ebind (case n of None \<Rightarrow> Inr 0 | Some d \<Rightarrow> py_int d) (\<lambda>i. Inr (Some (''a'', i)))"
  "parse_letter_version (Some ''beta'') n =
     ebind (case n of None \<Rightarrow> Inr 0 | Some d \<Rightarrow> py_int d) (\<lambda>i. Inr (Some (''b'', i)))"
  "parse_letter_version (Some ''c'') n =
     ebind (case n of None \<Rightarrow> Inr 0 | Some d \<Rightarrow> py_int d) (\<lambda>i. Inr (Some (''rc'', i)))"
  "parse_letter_version (Some ''pre'') n =
     ebind (case n of None \<Rightarrow> Inr 0 | Some d \<Rightarrow> py_int d) (\<lambda>i. Inr (Some (''rc'', i)))"
  "parse_letter_version (Some ''preview'') n =
     ebind (case n of None \<Rightarrow> Inr 0 | Some d \<Rightarrow> py_int d) (\<lambda>i. Inr (Some (''rc'', i)))"
  "parse_letter_version (Some ''rev'') n =
     ebind (case n of None \<Rightarrow> Inr 0 | Some d \<Rightarrow> py_int d) (\<lambda>i. Inr (Some (''post'', i)))"
  "parse_letter_version (Some ''r'') n =
     ebind (case n of None \<Rightarrow> Inr 0 | Some d \<Rightarrow> py_int d) (\<lambda>i. Inr (Some (''post'', i)))"
  "parse_letter_version (Some ''a'') n =
     ebind (case n of None \<Rightarrow> Inr 0 | Some d \<Rightarrow> py_int d) (\<lambda>i. Inr (Some (''a'', i)))"
  "parse_letter_version (Some ''b'') n =
     ebind (case n of None \<Rightarrow> Inr 0 | Some d \<Rightarrow> py_int d) (\<lambda>i. Inr (Some (''b'', i)))"
  "parse_letter_version (Some ''rc'') n =
     ebind (case n of None \<Rightarrow> Inr 0 | Some d \<Rightarrow> py_int d) (\<lambda>i. Inr (Some (''rc'', i)))"
  "parse_letter_version (Some ''post'') n =
     ebind (case n of None \<Rightarrow> Inr 0 | Some d \<Rightarrow> py_int d) (\<lambda>i. Inr (Some (''post'', i)))"
  by (simp_all add: parse_letter_version_def truthy_def lower_def lower_char_def)

lemma plv_lower:
  "parse_letter_version (Some (c # cs)) n = parse_letter_version (Some (lower (c # cs))) n"
proof -
  have "lower (c # cs) \<noteq> []" by (simp add: lower_def)
  then show ?thesis
    by (simp add: parse_letter_version_def truthy_def lower_idem Let_def)
qed

lemma plv_implicit_post:
  "parse_letter_version (Some []) (Some (d # ds)) =
     ebind (py_int (d # ds)) (\<lambda>i. Inr (Some (''post'', i)))"
  by (simp add: parse_letter_version_def truthy_def)

section \<open>The properties\<close>

text \<open>
  C1. The chain \<^verbatim>\<open>1.0.dev0 < 1.0a1 < 1.0a1.post1 < 1.0 < 1.0.post1\<close> breaks at its first
  link. \<^verbatim>\<open>_cmpkey\<close> gives a version without a pre-release the rank \<^verbatim>\<open>inf\<close> whether or not
  it is a dev release, so \<^verbatim>\<open>1.0.dev0\<close> sorts after \<^verbatim>\<open>1.0a1\<close> and after \<^verbatim>\<open>1.0a1.post1\<close>;
  the order of the five versions is
  \<^verbatim>\<open>1.0a1 < 1.0a1.post1 < 1.0.dev0 < 1.0 < 1.0.post1\<close>.
\<close>

theorem dev_release_sorts_after_pre_release:
  "cmp_versions OpLt ''1.0.dev0'' ''1.0a1'' = Inr False \<and>
   cmp_versions OpGt ''1.0.dev0'' ''1.0a1'' = Inr True \<and>
   cmp_versions OpLt ''1.0a1'' ''1.0a1.post1'' = Inr True \<and>
   cmp_versions OpLt ''1.0a1.post1'' ''1.0.dev0'' = Inr True \<and>
   cmp_versions OpLt ''1.0a1.post1'' ''1.0'' = Inr True \<and>
   cmp_versions OpLt ''1.0.dev0'' ''1.0'' = Inr True \<and>
   cmp_versions OpLt ''1.0'' ''1.0.post1'' = Inr True"
  by (simp add: cmp_defs init_1_0_dev0 init_1_0a1 init_1_0a1_post1 init_1_0 init_1_0_post1)

text \<open>
  C2. Release sequences are compared as Python tuples, without padding: for two parsed
  versions of equal epoch whose releases have unequal lengths, the versions are not equal,
  and the one with the shorter release is smaller exactly when its release is a prefix of
  the longer one or is smaller at the first position where the two differ. So \<^verbatim>\<open>1.0\<close>
  is smaller than \<^verbatim>\<open>1.0.0\<close>, not equal to it.
\<close>

theorem release_compared_as_tuple:
  assumes "Version_init s = Inr a" and "Version_init t = Inr b"
    and "Version_epoch a = Version_epoch b"
    and "length (Version_release a) < length (Version_release b)"
  shows "Version_eq a b = Inr False \<and>
         Version_lt a b =
           Inr ((\<exists>c cs. Version_release b = Version_release a @ c # cs) \<or>
                (\<exists>u x y v w. Version_release a = u @ x # v \<and> Version_release b = u @ y # w
                   \<and> x < y))"
proof -
  have ka: "k_epoch (key a) = Version_epoch a" "k_release (key a) = Version_release a"
    using cmpkey_fields(1,2) [OF init_key [OF assms(1)]]
    by (simp_all add: Version_epoch_def Version_release_def)
  have kb: "k_epoch (key b) = Version_epoch b" "k_release (key b) = Version_release b"
    using cmpkey_fields(1,2) [OF init_key [OF assms(2)]]
    by (simp_all add: Version_epoch_def Version_release_def)
  from assms(4) have ne: "Version_release a \<noteq> Version_release b" by auto
  have "ints_cmp OpLt (Version_release a) (Version_release b) =
          ((\<exists>c cs. Version_release b = Version_release a @ c # cs) \<or>
           (\<exists>u x y v w. Version_release a = u @ x # v \<and> Version_release b = u @ y # w
              \<and> x < y))"
    by (simp add: ints_cmp_lt_lexord lexord_def, blast)
  with ne assms(3) ka kb show ?thesis
    by (simp add: Version_eq_def Version_lt_def compare_def key_cmp_def ints_cmp_eq)
qed

text \<open>The versions \<^verbatim>\<open>1.0\<close> and \<^verbatim>\<open>1.0.0\<close>.\<close>

theorem release_compared_as_tuple_witness:
  "\<exists>a b. Version_init ''1.0'' = Inr a \<and> Version_init ''1.0.0'' = Inr b \<and>
     Version_epoch a = Version_epoch b \<and>
     length (Version_release a) < length (Version_release b) \<and>
     Version_eq a b = Inr False \<and> Version_lt a b = Inr True"
proof -
  let ?a = "\<lparr>version = \<lparr>nt_epoch = 0, nt_release = [1, 0], nt_dev = None, nt_pre = None,
         nt_post = None, nt_local = None\<rparr>,
       key = \<lparr>k_epoch = 0, k_release = [1, 0], k_pre = PosInf, k_post = NegInf,
         k_dev = PosInf, k_local = PosInf\<rparr>\<rparr>"
  let ?b = "\<lparr>version = \<lparr>nt_epoch = 0, nt_release = [1, 0, 0], nt_dev = None, nt_pre = None,
         nt_post = None, nt_local = None\<rparr>,
       key = \<lparr>k_epoch = 0, k_release = [1, 0, 0], k_pre = PosInf, k_post = NegInf,
         k_dev = PosInf, k_local = PosInf\<rparr>\<rparr>"
  have e: "Version_epoch ?a = Version_epoch ?b" by (simp add: Version_epoch_def)
  have l: "length (Version_release ?a) < length (Version_release ?b)"
    by (simp add: Version_release_def)
  from release_compared_as_tuple [OF init_1_0 init_1_0_0 e l]
  have "Version_eq ?a ?b = Inr False \<and> Version_lt ?a ?b = Inr True"
    by (simp add: Version_release_def)
  with e l init_1_0 init_1_0_0 show ?thesis by blast
qed

text \<open>With zero padding \<^verbatim>\<open>1.0\<close> and \<^verbatim>\<open>1.0.0\<close> would be equal; they are not.\<close>

theorem trailing_zero_release_not_equal:
  "cmp_versions OpEq ''1.0'' ''1.0.0'' = Inr False \<and>
   cmp_versions OpLt ''1.0'' ''1.0.0'' = Inr True"
  by (simp add: cmp_defs init_1_0 init_1_0_0)

text \<open>
  C3. The constructor raises \<^verbatim>\<open>InvalidVersion\<close> exactly when the string does not match
  the pattern, and the exception carries the message \<^verbatim>\<open>Invalid version: '<input>'\<close>, the
  offending input and no offset.
\<close>

theorem invalid_version_iff_no_match:
  "(Version_init v = Inl (InvalidVersion m)) =
     (search regex v = None \<and> m = ''Invalid version: '' @ [CHR 0x27] @ v @ [CHR 0x27])"
proof (cases "search regex v")
  case None
  then show ?thesis by (auto simp add: Version_init_def)
next
  case (Some g)
  then show ?thesis
    by (auto simp add: Version_init_def ebind_eq_Inl Let_def py_int_not_invalid
        ints_of_not_invalid parse_letter_version_not_invalid cmpkey_not_invalid
        split: option.splits)
qed

text \<open>
  The exception of a string that does not match holds the message only, and strings
  that match can end in \<^verbatim>\<open>ValueError\<close> or \<^verbatim>\<open>IndexError\<close>.
\<close>

theorem errors_of_the_constructor:
  "Version_init ''bogus'' =
     Inl (InvalidVersion (''Invalid version: '' @ [CHR 0x27] @ ''bogus'' @ [CHR 0x27])) \<and>
   Version_init ''1.0.post'' = Inl ValueError \<and>
   Version_init ''1.0+abc'' = Inl IndexError"
  by (simp add: init_1_0_post init_1_0_abc init_bogus)

text \<open>
  C4. A tag without a number: \<^verbatim>\<open>1.0a\<close> gets the pre-release number 0, but the
  constructor hands \<^verbatim>\<open>''\<close> instead of \<^verbatim>\<open>None\<close> to \<^verbatim>\<open>_parse_letter_version\<close> for the post
  and dev segments, so the default is not applied and \<^verbatim>\<open>int('')\<close> raises \<^verbatim>\<open>ValueError\<close>
  for \<^verbatim>\<open>1.0.dev\<close> and \<^verbatim>\<open>1.0.post\<close>.
\<close>

theorem tag_without_number:
  "Version_init ''1.0.dev'' = Inl ValueError \<and>
   Version_init ''1.0.post'' = Inl ValueError \<and>
   (\<exists>v. Version_init ''1.0a'' = Inr v \<and> Version_pre v = Some (''a'', 0))"
  by (simp add: init_1_0_dev init_1_0_post init_1_0a Version_pre_def)

text \<open>
  C5. \<^verbatim>\<open>Version("1.0+abc")\<close> does not succeed: the local segment has one part and
  \<^verbatim>\<open>local[1]\<close> in \<^verbatim>\<open>_cmpkey\<close> raises \<^verbatim>\<open>IndexError\<close>, so the comparison with \<^verbatim>\<open>1.0\<close> has no
  value.
\<close>

theorem local_segment_of_one_part_raises:
  "Version_init ''1.0+abc'' = Inl IndexError \<and>
   cmp_versions OpGt ''1.0'' ''1.0+abc'' = Inl IndexError"
  by (simp add: cmp_defs init_1_0_abc init_1_0)

text \<open>
  C6. Not every string of the grammar has a rendering to parse again: \<^verbatim>\<open>1.0.post\<close> and
  \<^verbatim>\<open>1.0+abc\<close> match the pattern, and the constructor raises \<^verbatim>\<open>ValueError\<close> on the first
  and \<^verbatim>\<open>IndexError\<close> on the second, so there is no \<^verbatim>\<open>Version\<close> whose string could be
  parsed again.
\<close>

theorem grammar_valid_string_without_version:
  "search regex ''1.0.post'' \<noteq> None \<and> Version_init ''1.0.post'' = Inl ValueError \<and>
   search regex ''1.0+abc'' \<noteq> None \<and> Version_init ''1.0+abc'' = Inl IndexError"
  by (simp add: search_1_0_post search_1_0_abc init_1_0_post init_1_0_abc)

text \<open>
  C7. Synonym spellings are normalised before the segments are stored and compared.
  For every number argument, \<^verbatim>\<open>_parse_letter_version\<close> turns \<^verbatim>\<open>alpha\<close> into \<^verbatim>\<open>a\<close>,
  \<^verbatim>\<open>beta\<close> into \<^verbatim>\<open>b\<close>, \<^verbatim>\<open>c\<close>, \<^verbatim>\<open>pre\<close> and \<^verbatim>\<open>preview\<close> into \<^verbatim>\<open>rc\<close>, \<^verbatim>\<open>rev\<close> and \<^verbatim>\<open>r\<close>
  into \<^verbatim>\<open>post\<close>, keeps \<^verbatim>\<open>a\<close>, \<^verbatim>\<open>b\<close>, \<^verbatim>\<open>rc\<close> and \<^verbatim>\<open>post\<close>, and keeps the number; it
  treats a tag like its lower-case form; a number without a tag is a post-release with
  the tag \<^verbatim>\<open>post\<close>. The version \<^verbatim>\<open>1.0a1\<close> stores the pre-release \<^verbatim>\<open>('a', 1)\<close> and
  \<^verbatim>\<open>1.0alpha1\<close> is the same version; \<^verbatim>\<open>1.0rc1\<close> stores \<^verbatim>\<open>('rc', 1)\<close> and \<^verbatim>\<open>1.0c1\<close>,
  \<^verbatim>\<open>1.0pre1\<close>, \<^verbatim>\<open>1.0preview1\<close> are the same version; \<^verbatim>\<open>1.0post1\<close> stores the post-release
  \<^verbatim>\<open>('post', 1)\<close> and \<^verbatim>\<open>1.0rev1\<close>, \<^verbatim>\<open>1.0r1\<close>, \<^verbatim>\<open>1.0-1\<close> are the same version; the pairs
  of the property compare equal.
\<close>

theorem synonym_spellings_normalized:
  "(parse_letter_version (Some ''alpha'') n =
       ebind (case n of None \<Rightarrow> Inr 0 | Some d \<Rightarrow> py_int d) (\<lambda>i. Inr (Some (''a'', i))) \<and>
    parse_letter_version (Some ''beta'') n =
       ebind (case n of None \<Rightarrow> Inr 0 | Some d \<Rightarrow> py_int d) (\<lambda>i. Inr (Some (''b'', i))) \<and>
    parse_letter_version (Some ''c'') n =
       ebind (case n of None \<Rightarrow> Inr 0 | Some d \<Rightarrow> py_int d) (\<lambda>i. Inr (Some (''rc'', i))) \<and>
    parse_letter_version (Some ''pre'') n =
       ebind (case n of None \<Rightarrow> Inr 0 | Some d \<Rightarrow> py_int d) (\<lambda>i. Inr (Some (''rc'', i))) \<and>
    parse_letter_version (Some ''preview'') n =
       ebind (case n of None \<Rightarrow> Inr 0 | Some d \<Rightarrow> py_int d) (\<lambda>i. Inr (Some (''rc'', i))) \<and>
    parse_letter_version (Some ''rev'') n =
       ebind (case n of None \<Rightarrow> Inr 0 | Some d \<Rightarrow> py_int d) (\<lambda>i. Inr (Some (''post'', i))) \<and>
    parse_letter_version (Some ''r'') n =
       ebind (case n of None \<Rightarrow> Inr 0 | Some d \<Rightarrow> py_int d) (\<lambda>i. Inr (Some (''post'', i))) \<and>
    parse_letter_version (Some ''a'') n =
       ebind (case n of None \<Rightarrow> Inr 0 | Some d \<Rightarrow> py_int d) (\<lambda>i. Inr (Some (''a'', i))) \<and>
    parse_letter_version (Some ''b'') n =
       ebind (case n of None \<Rightarrow> Inr 0 | Some d \<Rightarrow> py_int d) (\<lambda>i. Inr (Some (''b'', i))) \<and>
    parse_letter_version (Some ''rc'') n =
       ebind (case n of None \<Rightarrow> Inr 0 | Some d \<Rightarrow> py_int d) (\<lambda>i. Inr (Some (''rc'', i))) \<and>
    parse_letter_version (Some ''post'') n =
       ebind (case n of None \<Rightarrow> Inr 0 | Some d \<Rightarrow> py_int d) (\<lambda>i. Inr (Some (''post'', i)))) \<and>
   parse_letter_version (Some (c # cs)) n = parse_letter_version (Some (lower (c # cs))) n \<and>
   parse_letter_version (Some []) (Some (d # ds)) =
     ebind (py_int (d # ds)) (\<lambda>i. Inr (Some (''post'', i))) \<and>
   (Version_init ''1.0a1'' =
       Inr \<lparr>version = \<lparr>nt_epoch = 0, nt_release = [1, 0], nt_dev = None, nt_pre = Some (''a'', 1),
           nt_post = None, nt_local = None\<rparr>,
         key = \<lparr>k_epoch = 0, k_release = [1, 0], k_pre = Num 1, k_post = NegInf,
           k_dev = PosInf, k_local = PosInf\<rparr>\<rparr> \<and>
    Version_init ''1.0alpha1'' = Version_init ''1.0a1'' \<and>
    Version_init ''1.0ALPHA1'' = Version_init ''1.0a1'' \<and>
    Version_init ''1.0b1'' =
       Inr \<lparr>version = \<lparr>nt_epoch = 0, nt_release = [1, 0], nt_dev = None, nt_pre = Some (''b'', 1),
           nt_post = None, nt_local = None\<rparr>,
         key = \<lparr>k_epoch = 0, k_release = [1, 0], k_pre = Num 1, k_post = NegInf,
           k_dev = PosInf, k_local = PosInf\<rparr>\<rparr> \<and>
    Version_init ''1.0beta1'' = Version_init ''1.0b1'' \<and>
    Version_init ''1.0rc1'' =
       Inr \<lparr>version = \<lparr>nt_epoch = 0, nt_release = [1, 0], nt_dev = None, nt_pre = Some (''rc'', 1),
           nt_post = None, nt_local = None\<rparr>,
         key = \<lparr>k_epoch = 0, k_release = [1, 0], k_pre = Num 1, k_post = NegInf,
           k_dev = PosInf, k_local = PosInf\<rparr>\<rparr> \<and>
    Version_init ''1.0c1'' = Version_init ''1.0rc1'' \<and>
    Version_init ''1.0pre1'' = Version_init ''1.0rc1'' \<and>
    Version_init ''1.0preview1'' = Version_init ''1.0rc1'' \<and>
    Version_init ''1.0post1'' =
       Inr \<lparr>version = \<lparr>nt_epoch = 0, nt_release = [1, 0], nt_dev = None, nt_pre = None,
           nt_post = Some (''post'', 1), nt_local = None\<rparr>,
         key = \<lparr>k_epoch = 0, k_release = [1, 0], k_pre = PosInf, k_post = Num 1,
           k_dev = PosInf, k_local = PosInf\<rparr>\<rparr> \<and>
    Version_init ''1.0rev1'' = Version_init ''1.0post1'' \<and>
    Version_init ''1.0r1'' = Version_init ''1.0post1'' \<and>
    Version_init ''1.0-1'' = Version_init ''1.0post1'' \<and>
    cmp_versions OpEq ''1.0alpha1'' ''1.0a1'' = Inr True \<and>
    cmp_versions OpEq ''1.0c1'' ''1.0rc1'' = Inr True \<and>
    cmp_versions OpEq ''1.0rev1'' ''1.0post1'' = Inr True \<and>
    cmp_versions OpEq ''1.0post1'' ''1.0-1'' = Inr True \<and>
    cmp_versions OpEq ''1.0rev1'' ''1.0-1'' = Inr True)"
proof -
  have table: "(parse_letter_version (Some ''alpha'') n =
       ebind (case n of None \<Rightarrow> Inr 0 | Some d \<Rightarrow> py_int d) (\<lambda>i. Inr (Some (''a'', i))) \<and>
    parse_letter_version (Some ''beta'') n =
       ebind (case n of None \<Rightarrow> Inr 0 | Some d \<Rightarrow> py_int d) (\<lambda>i. Inr (Some (''b'', i))) \<and>
    parse_letter_version (Some ''c'') n =
       ebind (case n of None \<Rightarrow> Inr 0 | Some d \<Rightarrow> py_int d) (\<lambda>i. Inr (Some (''rc'', i))) \<and>
    parse_letter_version (Some ''pre'') n =
       ebind (case n of None \<Rightarrow> Inr 0 | Some d \<Rightarrow> py_int d) (\<lambda>i. Inr (Some (''rc'', i))) \<and>
    parse_letter_version (Some ''preview'') n =
       ebind (case n of None \<Rightarrow> Inr 0 | Some d \<Rightarrow> py_int d) (\<lambda>i. Inr (Some (''rc'', i))) \<and>
    parse_letter_version (Some ''rev'') n =
       ebind (case n of None \<Rightarrow> Inr 0 | Some d \<Rightarrow> py_int d) (\<lambda>i. Inr (Some (''post'', i))) \<and>
    parse_letter_version (Some ''r'') n =
       ebind (case n of None \<Rightarrow> Inr 0 | Some d \<Rightarrow> py_int d) (\<lambda>i. Inr (Some (''post'', i))) \<and>
    parse_letter_version (Some ''a'') n =
       ebind (case n of None \<Rightarrow> Inr 0 | Some d \<Rightarrow> py_int d) (\<lambda>i. Inr (Some (''a'', i))) \<and>
    parse_letter_version (Some ''b'') n =
       ebind (case n of None \<Rightarrow> Inr 0 | Some d \<Rightarrow> py_int d) (\<lambda>i. Inr (Some (''b'', i))) \<and>
    parse_letter_version (Some ''rc'') n =
       ebind (case n of None \<Rightarrow> Inr 0 | Some d \<Rightarrow> py_int d) (\<lambda>i. Inr (Some (''rc'', i))) \<and>
    parse_letter_version (Some ''post'') n =
       ebind (case n of None \<Rightarrow> Inr 0 | Some d \<Rightarrow> py_int d) (\<lambda>i. Inr (Some (''post'', i))))"
    by (simp add: plv_table)
  have strings: "(Version_init ''1.0a1'' =
       Inr \<lparr>version = \<lparr>nt_epoch = 0, nt_release = [1, 0], nt_dev = None, nt_pre = Some (''a'', 1),
           nt_post = None, nt_local = None\<rparr>,
         key = \<lparr>k_epoch = 0, k_release = [1, 0], k_pre = Num 1, k_post = NegInf,
           k_dev = PosInf, k_local = PosInf\<rparr>\<rparr> \<and>
    Version_init ''1.0alpha1'' = Version_init ''1.0a1'' \<and>
    Version_init ''1.0ALPHA1'' = Version_init ''1.0a1'' \<and>
    Version_init ''1.0b1'' =
       Inr \<lparr>version = \<lparr>nt_epoch = 0, nt_release = [1, 0], nt_dev = None, nt_pre = Some (''b'', 1),
           nt_post = None, nt_local = None\<rparr>,
         key = \<lparr>k_epoch = 0, k_release = [1, 0], k_pre = Num 1, k_post = NegInf,
           k_dev = PosInf, k_local = PosInf\<rparr>\<rparr> \<and>
    Version_init ''1.0beta1'' = Version_init ''1.0b1'' \<and>
    Version_init ''1.0rc1'' =
       Inr \<lparr>version = \<lparr>nt_epoch = 0, nt_release = [1, 0], nt_dev = None, nt_pre = Some (''rc'', 1),
           nt_post = None, nt_local = None\<rparr>,
         key = \<lparr>k_epoch = 0, k_release = [1, 0], k_pre = Num 1, k_post = NegInf,
           k_dev = PosInf, k_local = PosInf\<rparr>\<rparr> \<and>
    Version_init ''1.0c1'' = Version_init ''1.0rc1'' \<and>
    Version_init ''1.0pre1'' = Version_init ''1.0rc1'' \<and>
    Version_init ''1.0preview1'' = Version_init ''1.0rc1'' \<and>
    Version_init ''1.0post1'' =
       Inr \<lparr>version = \<lparr>nt_epoch = 0, nt_release = [1, 0], nt_dev = None, nt_pre = None,
           nt_post = Some (''post'', 1), nt_local = None\<rparr>,
         key = \<lparr>k_epoch = 0, k_release = [1, 0], k_pre = PosInf, k_post = Num 1,
           k_dev = PosInf, k_local = PosInf\<rparr>\<rparr> \<and>
    Version_init ''1.0rev1'' = Version_init ''1.0post1'' \<and>
    Version_init ''1.0r1'' = Version_init ''1.0post1'' \<and>
    Version_init ''1.0-1'' = Version_init ''1.0post1'' \<and>
    cmp_versions OpEq ''1.0alpha1'' ''1.0a1'' = Inr True \<and>
    cmp_versions OpEq ''1.0c1'' ''1.0rc1'' = Inr True \<and>
    cmp_versions OpEq ''1.0rev1'' ''1.0post1'' = Inr True \<and>
    cmp_versions OpEq ''1.0post1'' ''1.0-1'' = Inr True \<and>
    cmp_versions OpEq ''1.0rev1'' ''1.0-1'' = Inr True)"
    by (simp add: cmp_defs init_1_0alpha1 init_1_0a1 init_1_0c1 init_1_0rc1 init_1_0rev1
        init_1_0post1 init_1_0_minus_1 init_1_0b1 init_1_0beta1 init_1_0pre1 init_1_0preview1
        init_1_0r1 init_1_0ALPHA1)
  show ?thesis
    by (rule conjI [OF table conjI [OF plv_lower conjI [OF plv_implicit_post strings]]])
qed

text \<open>
  C8. The comparison is not defined on every two versions: \<^verbatim>\<open>1.0+a.b\<close> and \<^verbatim>\<open>1.0\<close> are
  both constructed, the key of the first has the string \<^verbatim>\<open>b\<close> in its last position, the
  key of the second has \<^verbatim>\<open>inf\<close> there, and \<^verbatim>\<open><\<close> and \<^verbatim>\<open>>\<close> raise \<^verbatim>\<open>TypeError\<close>.
\<close>

theorem string_local_rank_not_comparable:
  "(\<exists>a b. Version_init ''1.0+a.b'' = Inr a \<and> Version_init ''1.0'' = Inr b) \<and>
   cmp_versions OpLt ''1.0+a.b'' ''1.0'' = Inl TypeError \<and>
   cmp_versions OpGt ''1.0+a.b'' ''1.0'' = Inl TypeError \<and>
   cmp_versions OpEq ''1.0+a.b'' ''1.0'' = Inr False"
  by (simp add: cmp_defs init_1_0_a_b init_1_0)

text \<open>
  C9. A candidate that cannot be constructed ends the whole check: whenever one of the
  candidate strings raises in the constructor, the result is \<^verbatim>\<open>None\<close>, whatever the other
  candidates are.
\<close>

theorem unparsable_candidate_aborts_check:
  assumes "r \<in> set releases" and "Version_init r = Inl e"
  shows "fst (check_new_package_available only_once checked (Inr releases) current) = None"
proof -
  from assms obtain e' where "versions_of releases = Inl e'"
    using versions_of_fails by blast
  then show ?thesis
    by (simp add: check_new_package_available_def check_body_def)
qed

text \<open>The candidates \<^verbatim>\<open>2.0.0\<close> and \<^verbatim>\<open>bogus\<close>.\<close>

theorem unparsable_candidate_aborts_check_witness:
  "''bogus'' \<in> set [''2.0.0'', ''bogus''] \<and>
   Version_init ''bogus'' =
     Inl (InvalidVersion (''Invalid version: '' @ [CHR 0x27] @ ''bogus'' @ [CHR 0x27])) \<and>
   fst (check_new_package_available False False (Inr [''2.0.0'', ''bogus'']) ''1.0.0'') = None"
proof -
  have m: "''bogus'' \<in> set [''2.0.0'', ''bogus'']" by simp
  from unparsable_candidate_aborts_check [OF m init_bogus] m init_bogus show ?thesis by blast
qed

text \<open>
  With the current version \<^verbatim>\<open>1.0.0\<close>, the candidate \<^verbatim>\<open>2.0.0\<close> alone is reported as an
  update; together with the candidate \<^verbatim>\<open>bogus\<close> nothing is reported.
\<close>

theorem unparsable_candidate_discards_the_others:
  "fst (check_new_package_available False False (Inr [''2.0.0'', ''bogus'']) ''1.0.0'') = None \<and>
   fst (check_new_package_available False False (Inr [''2.0.0'']) ''1.0.0'')
     = Some (''2.0.0'', True)"
  by (simp add: check_new_package_available_def check_body_def init_2_0_0 init_bogus init_1_0_0
      not_prerelease_record last_item_def Version_ge_def Version_lt_def compare_def key_cmp_def
      str_defs)

text \<open>
  C10. The pre-release tag has no part in the key: two constructed versions with the same
  pre-release number that differ in nothing but the pre-release tag have the same key,
  compare equal and have the same hash.
\<close>

theorem pre_release_tag_not_in_key:
  assumes "Version_init s = Inr a" and "Version_init t = Inr b"
    and "nt_pre (version a) = Some (la, n)" and "nt_pre (version b) = Some (lb, n)"
    and "(version a)\<lparr>nt_pre := None\<rparr> = (version b)\<lparr>nt_pre := None\<rparr>"
  shows "key a = key b \<and> Version_eq a b = Inr True \<and> Version_hash hash a = Version_hash hash b"
proof -
  have "nt_epoch ((version a)\<lparr>nt_pre := None\<rparr>) = nt_epoch ((version b)\<lparr>nt_pre := None\<rparr>)"
    and "nt_release ((version a)\<lparr>nt_pre := None\<rparr>) = nt_release ((version b)\<lparr>nt_pre := None\<rparr>)"
    and "nt_post ((version a)\<lparr>nt_pre := None\<rparr>) = nt_post ((version b)\<lparr>nt_pre := None\<rparr>)"
    and "nt_dev ((version a)\<lparr>nt_pre := None\<rparr>) = nt_dev ((version b)\<lparr>nt_pre := None\<rparr>)"
    and "nt_local ((version a)\<lparr>nt_pre := None\<rparr>) = nt_local ((version b)\<lparr>nt_pre := None\<rparr>)"
    using assms(5) by simp_all
  then have same: "nt_epoch (version a) = nt_epoch (version b)"
    "nt_release (version a) = nt_release (version b)"
    "nt_post (version a) = nt_post (version b)"
    "nt_dev (version a) = nt_dev (version b)"
    "nt_local (version a) = nt_local (version b)"
    by simp_all
  have "Inr (key a) = (Inr (key b) :: error + cmpkey)"
    unfolding init_key_eq [OF assms(1)] init_key_eq [OF assms(2)] assms(3) assms(4) same
    by (rule cmpkey_pre_tag)
  then have "key a = key b" by simp
  then show ?thesis
    by (simp add: Version_eq_def compare_def key_cmp_eq_refl Version_hash_def)
qed

text \<open>The versions \<^verbatim>\<open>1.0a1\<close>, \<^verbatim>\<open>1.0b1\<close> and \<^verbatim>\<open>1.0rc1\<close>; their strings differ.\<close>

theorem pre_release_tag_not_in_key_witness:
  "\<exists>a b c. Version_init ''1.0a1'' = Inr a \<and> Version_init ''1.0b1'' = Inr b \<and>
     Version_init ''1.0rc1'' = Inr c \<and>
     nt_pre (version a) = Some (''a'', 1) \<and> nt_pre (version b) = Some (''b'', 1) \<and>
     nt_pre (version c) = Some (''rc'', 1) \<and>
     (version a)\<lparr>nt_pre := None\<rparr> = (version b)\<lparr>nt_pre := None\<rparr> \<and>
     (version b)\<lparr>nt_pre := None\<rparr> = (version c)\<lparr>nt_pre := None\<rparr> \<and>
     key a = key b \<and> key b = key c \<and>
     Version_eq a b = Inr True \<and> Version_eq b c = Inr True \<and>
     Version_hash k_epoch a = Version_hash k_epoch b \<and>
     Version_hash k_epoch b = Version_hash k_epoch c \<and>
     Version_str a = ''1.0a1'' \<and> Version_str b = ''1.0b1'' \<and> Version_str c = ''1.0rc1''"
proof -
  let ?k = "\<lparr>k_epoch = 0, k_release = [1, 0], k_pre = Num 1, k_post = NegInf,
         k_dev = PosInf, k_local = PosInf\<rparr>"
  let ?a = "\<lparr>version = \<lparr>nt_epoch = 0, nt_release = [1, 0], nt_dev = None,
         nt_pre = Some (''a'', 1), nt_post = None, nt_local = None\<rparr>, key = ?k\<rparr>"
  let ?b = "\<lparr>version = \<lparr>nt_epoch = 0, nt_release = [1, 0], nt_dev = None,
         nt_pre = Some (''b'', 1), nt_post = None, nt_local = None\<rparr>, key = ?k\<rparr>"
  let ?c = "\<lparr>version = \<lparr>nt_epoch = 0, nt_release = [1, 0], nt_dev = None,
         nt_pre = Some (''rc'', 1), nt_post = None, nt_local = None\<rparr>, key = ?k\<rparr>"
  have ab: "key ?a = key ?b \<and> Version_eq ?a ?b = Inr True \<and>
            Version_hash k_epoch ?a = Version_hash k_epoch ?b"
    by (rule pre_release_tag_not_in_key [OF init_1_0a1 init_1_0b1, of "''a''" 1 "''b''" k_epoch])
      simp_all
  have bc: "key ?b = key ?c \<and> Version_eq ?b ?c = Inr True \<and>
            Version_hash k_epoch ?b = Version_hash k_epoch ?c"
    by (rule pre_release_tag_not_in_key [OF init_1_0b1 init_1_0rc1, of "''b''" 1 "''rc''" k_epoch])
      simp_all
  have strs: "Version_str ?a = ''1.0a1''" "Version_str ?b = ''1.0b1''"
    "Version_str ?c = ''1.0rc1''"
    by (simp_all add: str_defs)
  have pres: "nt_pre (version ?a) = Some (''a'', 1)" "nt_pre (version ?b) = Some (''b'', 1)"
    "nt_pre (version ?c) = Some (''rc'', 1)"
    "(version ?a)\<lparr>nt_pre := None\<rparr> = (version ?b)\<lparr>nt_pre := None\<rparr>"
    "(version ?b)\<lparr>nt_pre := None\<rparr> = (version ?c)\<lparr>nt_pre := None\<rparr>"
    by simp_all
  from ab bc strs pres init_1_0a1 init_1_0b1 init_1_0rc1 show ?thesis
    by blast
qed

end
